theory Spec2Isabelle
  imports Main "HOL-Library.Sublist"
begin

section \<open>The settings normalizer of \<open>nautobot/core/cli.py\<close>\<close>

text \<open>
  The module's one procedure with logic of its own is \<open>_configure_settings(config)\<close>: a fixed
  sequence of checks and in-place mutations of the Django settings object. The model threads
  the settings object and the rest of the process state (filesystem, emitted warnings, the
  monkey-patched \<open>storages.utils.setting\<close>) through the steps in source order. A raised
  exception ends the sequence; the mutations made before it stay, so a step returns the
  exception (if any) together with the state it leaves behind.
\<close>

subsection \<open>Exceptions\<close>

datatype exn =
    ImproperlyConfigured string
  | ValidationError string
  | ModuleNotFoundError string    \<comment> \<open>the argument is the exception's \<open>name\<close> attribute\<close>
  | KeyError string
  | OSError string
  | OtherError string

subsection \<open>The settings object and the config dictionary\<close>

record settings =
  SETTINGS_PATH :: string
  GIT_ROOT :: string
  JOBS_ROOT :: string
  MEDIA_ROOT :: string
  STATIC_ROOT :: string
  METRICS_ENABLED :: bool
  DATABASES :: "string \<Rightarrow> (string \<Rightarrow> string option) option"
  PAGINATE_COUNT :: int
  PER_PAGE_DEFAULTS :: "int list"
  AUTHENTICATION_BACKENDS :: "string list"
  RELEASE_CHECK_URL :: "string option"
  RELEASE_CHECK_TIMEOUT :: int
  STORAGE_BACKEND :: "string option"
  DEFAULT_FILE_STORAGE :: string
  STORAGE_CONFIG :: "(string \<times> string) list"
  SOCIAL_AUTH_ENABLED :: bool
  SOCIAL_AUTH_MODULE :: string
  INSTALLED_APPS :: "string list"
  BASE_PATH :: string
  LOGIN_URL :: string
  PLUGINS :: "string list"
  PLUGINS_CONFIG :: "(string \<times> (string \<times> string) list) list"
  VERSION :: string
  MIDDLEWARE :: "string list"
  CACHEOPS :: "(string \<times> (string \<times> string) list) list"

text \<open>The argument of \<open>_configure_settings\<close>: a dictionary of \<open>project\<close>, \<open>config_path\<close>
  and \<open>settings\<close>.\<close>

record config =
  config_project :: string
  config_path :: string
  config_settings :: settings

subsection \<open>Process state outside the settings object\<close>

datatype setting_fn = Library_setting | Local_setting

record 'fs process =
  filesystem :: 'fs
  warnings :: "string list"
  storages_utils_setting :: setting_fn

type_synonym 'fs state = "settings \<times> 'fs process"
type_synonym 'fs step = "'fs state \<Rightarrow> exn option \<times> 'fs state"

subsection \<open>External collaborators\<close>

text \<open>
  Library and sibling-module calls whose code is not part of \<open>cli.py\<close>. Each may raise; the
  filesystem calls return the filesystem they leave behind. \<open>import_storages_utils\<close> is the
  outcome of the statement \<open>import storages.utils\<close>. \<open>load_plugins\<close> receives six arguments
  and mutates the installed-application list, the plugin configuration, the middleware list
  and the cache configuration through their references.
\<close>

record 'fs externals =
  os_path_exists :: "'fs \<Rightarrow> string \<Rightarrow> bool"
  os_makedirs :: "'fs \<Rightarrow> string \<Rightarrow> exn option \<times> 'fs"
  path_touch :: "'fs \<Rightarrow> string \<Rightarrow> exn option \<times> 'fs"
  import_storages_utils :: "exn option"
  get_sso_backend_name :: "string \<Rightarrow> exn + string"
  load_plugins :: "string list \<Rightarrow> string list \<Rightarrow> (string \<times> (string \<times> string) list) list \<Rightarrow> string
      \<Rightarrow> string list \<Rightarrow> (string \<times> (string \<times> string) list) list
      \<Rightarrow> exn option \<times> string list \<times> (string \<times> (string \<times> string) list) list
          \<times> string list \<times> (string \<times> (string \<times> string) list) list"

subsection \<open>Sequencing\<close>

text \<open>Statement sequencing with exceptions: the second step runs only if the first one
  raised nothing.\<close>

definition and_then :: "('a \<Rightarrow> exn option \<times> 'a) \<Rightarrow> ('a \<Rightarrow> exn option \<times> 'a) \<Rightarrow> 'a \<Rightarrow> exn option \<times> 'a" where
  "and_then f g x = (case f x of (None, y) \<Rightarrow> g y | (Some e, y) \<Rightarrow> (Some e, y))"

text \<open>A step that reads and writes the settings object only.\<close>

definition on_settings :: "(settings \<Rightarrow> exn option \<times> settings) \<Rightarrow> 'fs step" where
  "on_settings f x = (case x of (s, p) \<Rightarrow> (case f s of (r, s') \<Rightarrow> (r, s', p)))"

subsection \<open>Storage directories (lines 113--126)\<close>

text \<open>\<open>os.path.join\<close> of two components (POSIX).\<close>

definition os_path_join :: "string \<Rightarrow> string \<Rightarrow> string" where
  "os_path_join a b =
     (if prefix ''/'' b then b
      else if a = [] \<or> last a = CHR ''/'' then a @ b
      else a @ ''/'' @ b)"

definition ensure_dir :: "'fs externals \<Rightarrow> string \<Rightarrow> 'fs \<Rightarrow> exn option \<times> 'fs" where
  "ensure_dir env path f = (if \<not> os_path_exists env f path then os_makedirs env f path else (None, f))"

definition ensure_file :: "'fs externals \<Rightarrow> string \<Rightarrow> 'fs \<Rightarrow> exn option \<times> 'fs" where
  "ensure_file env path f = (if \<not> os_path_exists env f path then path_touch env f path else (None, f))"

definition storage_directories_fs :: "'fs externals \<Rightarrow> settings \<Rightarrow> 'fs \<Rightarrow> exn option \<times> 'fs" where
  "storage_directories_fs env s =
     and_then (ensure_dir env (GIT_ROOT s))
    (and_then (ensure_dir env (JOBS_ROOT s))
    (and_then (ensure_file env (os_path_join (JOBS_ROOT s) ''__init__.py''))
    (and_then (ensure_dir env (MEDIA_ROOT s))
    (and_then (ensure_dir env (os_path_join (MEDIA_ROOT s) ''devicetype-images''))
    (and_then (ensure_dir env (os_path_join (MEDIA_ROOT s) ''image-attachments''))
              (ensure_dir env (STATIC_ROOT s)))))))"

definition storage_directories :: "'fs externals \<Rightarrow> 'fs step" where
  "storage_directories env x =
     (case x of (s, p) \<Rightarrow>
        (case storage_directories_fs env s (filesystem p) of
           (r, f) \<Rightarrow> (r, s, p\<lparr>filesystem := f\<rparr>)))"

subsection \<open>Databases (lines 134--135)\<close>

definition databases :: "settings \<Rightarrow> exn option \<times> settings" where
  "databases s =
     (if METRICS_ENABLED s then
        (case DATABASES s ''default'' of
           None \<Rightarrow> (Some (KeyError ''default''), s)
         | Some d \<Rightarrow>
            (case d ''ENGINE'' of
               None \<Rightarrow> (Some (KeyError ''ENGINE''), s)
             | Some engine \<Rightarrow>
                 if sublist ''postgres'' engine
                 then (None, s\<lparr>DATABASES := (DATABASES s)(''default'' \<mapsto>
                                 d(''ENGINE'' \<mapsto> ''django_prometheus.db.backends.postgresql''))\<rparr>)
                 else (None, s)))
      else (None, s))"

subsection \<open>Pagination (lines 141--143)\<close>

definition pagination :: "settings \<Rightarrow> exn option \<times> settings" where
  "pagination s =
     (if PAGINATE_COUNT s \<notin> set (PER_PAGE_DEFAULTS s)
      then (None, s\<lparr>PER_PAGE_DEFAULTS := sort (PER_PAGE_DEFAULTS s @ [PAGINATE_COUNT s])\<rparr>)
      else (None, s))"

subsection \<open>Authentication (lines 152--155)\<close>

definition ObjectPermissionBackend :: string where
  "ObjectPermissionBackend = ''nautobot.core.authentication.ObjectPermissionBackend''"

definition authentication_message :: string where
  "authentication_message =
     ''nautobot.core.authentication.ObjectPermissionBackend must be defined in ''
     @ [CHR 0x27] @ ''AUTHENTICATION_BACKENDS'' @ [CHR 0x27]"

definition authentication :: "settings \<Rightarrow> exn option \<times> settings" where
  "authentication s =
     (if ObjectPermissionBackend \<notin> set (AUTHENTICATION_BACKENDS s)
      then (Some (ImproperlyConfigured authentication_message), s)
      else (None, s))"

subsection \<open>Releases (lines 162--173)\<close>

text \<open>
  Django's \<open>URLValidator\<close>. Its constructor is \<open>__init__(self, schemes=None, **kwargs)\<close>: the
  first positional argument is stored as the list of accepted schemes, and nothing is
  validated. A value is validated by calling the constructed object, which line 164 does not
  do; the constructed object is dropped.
\<close>

record url_validator =
  schemes :: string

definition URLValidator :: "string \<Rightarrow> exn + url_validator" where
  "URLValidator sch = Inr \<lparr>schemes = sch\<rparr>"

definition release_check_url_message :: string where
  "release_check_url_message =
     ''RELEASE_CHECK_URL must be a valid API URL. Example: https://api.github.com/repos/nautobot/nautobot''"

fun on_validation_error :: "exn \<Rightarrow> exn" where
  "on_validation_error (ValidationError m) = ImproperlyConfigured release_check_url_message"
| "on_validation_error e = e"

definition release_check_url :: "settings \<Rightarrow> exn option \<times> settings" where
  "release_check_url s =
     (case RELEASE_CHECK_URL s of
        None \<Rightarrow> (None, s)
      | Some url \<Rightarrow>
          if url = [] then (None, s)
          else (case URLValidator url of
                  Inl e \<Rightarrow> (Some (on_validation_error e), s)
                | Inr v \<Rightarrow> (None, s)))"

definition release_check_timeout_message :: string where
  "release_check_timeout_message = ''RELEASE_CHECK_TIMEOUT has to be at least 3600 seconds (1 hour)''"

definition release_check_timeout :: "settings \<Rightarrow> exn option \<times> settings" where
  "release_check_timeout s =
     (if RELEASE_CHECK_TIMEOUT s < 3600
      then (Some (ImproperlyConfigured release_check_timeout_message), s)
      else (None, s))"

subsection \<open>Media storage (lines 179--207)\<close>

definition storages_missing_message :: "string \<Rightarrow> string" where
  "storages_missing_message backend =
     ''STORAGE_BACKEND is set to '' @ backend @ '' but django-storages is not present. It ''
     @ ''can be installed by running '' @ [CHR 0x27] @ ''pip install django-storages'' @ [CHR 0x27] @ ''.''"

text \<open>The handler of \<open>except ModuleNotFoundError as e\<close>; any other exception of the import
  is not caught.\<close>

fun on_import_error :: "string \<Rightarrow> exn \<Rightarrow> exn" where
  "on_import_error backend (ModuleNotFoundError name) =
     (if name = ''storages'' then ImproperlyConfigured (storages_missing_message backend)
      else ModuleNotFoundError name)"
| "on_import_error backend e = e"

text \<open>The replacement \<open>_setting(name, default=None)\<close> installed as \<open>storages.utils.setting\<close>;
  \<open>globals\<close> is the module dictionary of \<open>cli.py\<close>.\<close>

definition local_setting :: "settings \<Rightarrow> (string \<Rightarrow> string option) \<Rightarrow> string \<Rightarrow> string option \<Rightarrow> string option" where
  "local_setting s globals name dflt =
     (case map_of (STORAGE_CONFIG s) name of
        Some v \<Rightarrow> Some v
      | None \<Rightarrow> (case globals name of Some v \<Rightarrow> Some v | None \<Rightarrow> dflt))"

definition media_storage :: "'fs externals \<Rightarrow> 'fs step" where
  "media_storage env x =
     (case x of (s, p) \<Rightarrow>
        (case STORAGE_BACKEND s of
           None \<Rightarrow> (None, s, p)
         | Some backend \<Rightarrow>
             let s' = s\<lparr>DEFAULT_FILE_STORAGE := backend\<rparr> in
             if prefix ''storages.'' backend then
               (case import_storages_utils env of
                  Some e \<Rightarrow> (Some (on_import_error backend e), s', p)
                | None \<Rightarrow> (None, s', p\<lparr>storages_utils_setting := Local_setting\<rparr>))
             else (None, s', p)))"

definition storage_config_message :: string where
  "storage_config_message =
     ''STORAGE_CONFIG has been set in settings but STORAGE_BACKEND is not defined. STORAGE_CONFIG will be ignored.''"

definition storage_config_warning :: "'fs step" where
  "storage_config_warning x =
     (case x of (s, p) \<Rightarrow>
        if STORAGE_CONFIG s \<noteq> [] \<and> STORAGE_BACKEND s = None
        then (None, s, p\<lparr>warnings := warnings p @ [storage_config_message]\<rparr>)
        else (None, s, p))"

subsection \<open>SSO (lines 214--218)\<close>

definition login_url :: "string \<Rightarrow> string \<Rightarrow> string" where
  "login_url base_path backend_name = ''/'' @ base_path @ ''login/'' @ backend_name @ ''/''"

definition sso :: "'fs externals \<Rightarrow> 'fs step" where
  "sso env x =
     (case x of (s, p) \<Rightarrow>
        if SOCIAL_AUTH_ENABLED s then
          let s1 = s\<lparr>INSTALLED_APPS := INSTALLED_APPS s @ [''social_django'']\<rparr>;
              s2 = s1\<lparr>AUTHENTICATION_BACKENDS := SOCIAL_AUTH_MODULE s1 # AUTHENTICATION_BACKENDS s1\<rparr>
          in (case get_sso_backend_name env (SOCIAL_AUTH_MODULE s2) of
                Inl e \<Rightarrow> (Some e, s2, p)
              | Inr backend_name \<Rightarrow> (None, s2\<lparr>LOGIN_URL := login_url (BASE_PATH s2) backend_name\<rparr>, p))
        else (None, s, p))"

subsection \<open>Plugins (lines 226--233)\<close>

definition plugins :: "'fs externals \<Rightarrow> 'fs step" where
  "plugins env x =
     (case x of (s, p) \<Rightarrow>
        (case load_plugins env (PLUGINS s) (INSTALLED_APPS s) (PLUGINS_CONFIG s) (VERSION s)
                (MIDDLEWARE s) (CACHEOPS s) of
           (r, apps, plugins_config, middleware, cacheops) \<Rightarrow>
             (r, s\<lparr>INSTALLED_APPS := apps, PLUGINS_CONFIG := plugins_config,
                   MIDDLEWARE := middleware, CACHEOPS := cacheops\<rparr>, p)))"

subsection \<open>The procedure\<close>

definition initial_settings :: "config \<Rightarrow> settings" where
  "initial_settings config = (config_settings config)\<lparr>SETTINGS_PATH := config_path config\<rparr>"

definition configure_settings :: "'fs externals \<Rightarrow> config \<Rightarrow> 'fs process \<Rightarrow> exn option \<times> 'fs state" where
  "configure_settings env config p =
     (and_then (storage_directories env)
     (and_then (on_settings databases)
     (and_then (on_settings pagination)
     (and_then (on_settings authentication)
     (and_then (on_settings release_check_url)
     (and_then (on_settings release_check_timeout)
     (and_then (media_storage env)
     (and_then storage_config_warning
     (and_then (sso env)
               (plugins env))))))))))
       (initial_settings config, p)"

text \<open>What a run leaves behind: the exception it raised (if any), the settings object and the
  rest of the process state.\<close>

abbreviation raised :: "exn option \<times> 'fs state \<Rightarrow> exn option" where
  "raised r \<equiv> fst r"

abbreviation settings_after :: "exn option \<times> 'fs state \<Rightarrow> settings" where
  "settings_after r \<equiv> fst (snd r)"

abbreviation process_after :: "exn option \<times> 'fs state \<Rightarrow> 'fs process" where
  "process_after r \<equiv> snd (snd r)"

subsection \<open>The remainder of the procedure from a given section onwards\<close>

definition from_sso :: "'fs externals \<Rightarrow> 'fs step" where
  "from_sso env = and_then (sso env) (plugins env)"

definition from_storage_config_warning :: "'fs externals \<Rightarrow> 'fs step" where
  "from_storage_config_warning env = and_then storage_config_warning (from_sso env)"

definition from_media_storage :: "'fs externals \<Rightarrow> 'fs step" where
  "from_media_storage env = and_then (media_storage env) (from_storage_config_warning env)"

definition from_release_check_timeout :: "'fs externals \<Rightarrow> 'fs step" where
  "from_release_check_timeout env = and_then (on_settings release_check_timeout) (from_media_storage env)"

definition from_release_check_url :: "'fs externals \<Rightarrow> 'fs step" where
  "from_release_check_url env = and_then (on_settings release_check_url) (from_release_check_timeout env)"

definition from_authentication :: "'fs externals \<Rightarrow> 'fs step" where
  "from_authentication env = and_then (on_settings authentication) (from_release_check_url env)"

definition from_pagination :: "'fs externals \<Rightarrow> 'fs step" where
  "from_pagination env = and_then (on_settings pagination) (from_authentication env)"

definition from_databases :: "'fs externals \<Rightarrow> 'fs step" where
  "from_databases env = and_then (on_settings databases) (from_pagination env)"

text \<open>The state in which the authentication check is reached when the sections before it
  raise nothing: the settings after the databases and pagination sections, and the process
  with the filesystem the directory section leaves behind.\<close>

definition settings_at_authentication :: "config \<Rightarrow> settings" where
  "settings_at_authentication config = snd (pagination (snd (databases (initial_settings config))))"

definition process_after_directories :: "'fs externals \<Rightarrow> config \<Rightarrow> 'fs process \<Rightarrow> 'fs process" where
  "process_after_directories env config p =
     p\<lparr>filesystem := snd (storage_directories_fs env (config_settings config) (filesystem p))\<rparr>"

text \<open>The engine string \<open>DATABASES["default"]["ENGINE"]\<close>, if both keys are present.\<close>

definition database_engine :: "settings \<Rightarrow> string option" where
  "database_engine s = (case DATABASES s ''default'' of None \<Rightarrow> None | Some d \<Rightarrow> d ''ENGINE'')"

text \<open>A step preserves a property of the settings object if the property holds of the settings
  it leaves behind whenever it held before, whether or not the step raises.\<close>

definition preserves :: "(settings \<Rightarrow> bool) \<Rightarrow> 'fs step \<Rightarrow> bool" where
  "preserves P f = (\<forall>x. P (fst x) \<longrightarrow> P (fst (snd (f x))))"

subsection \<open>A sample deployment\<close>

text \<open>
  Concrete inputs on which the procedure is evaluated: a filesystem given by the list of
  existing paths, on which every call succeeds; no django-storages package; a backend-name
  resolver that knows the Google OAuth2 backend; a plugin loader with nothing to load.
\<close>

definition sample_externals :: "string list externals" where
  "sample_externals =
     \<lparr>os_path_exists = (\<lambda>f path. path \<in> set f),
      os_makedirs = (\<lambda>f path. (None, path # f)),
      path_touch = (\<lambda>f path. (None, path # f)),
      import_storages_utils = Some (ModuleNotFoundError ''storages''),
      get_sso_backend_name =
        (\<lambda>m. if m = ''social_core.backends.google.GoogleOAuth2'' then Inr ''google-oauth2''
             else Inl (ImproperlyConfigured (''Unable to import Social Auth Module '' @ m @ ''.''))),
      load_plugins = (\<lambda>pl apps pc v mw co. (None, apps, pc, mw, co))\<rparr>"

definition sample_settings :: settings where
  "sample_settings =
     \<lparr>SETTINGS_PATH = [],
      GIT_ROOT = ''/opt/nautobot/git'',
      JOBS_ROOT = ''/opt/nautobot/jobs'',
      MEDIA_ROOT = ''/opt/nautobot/media'',
      STATIC_ROOT = ''/opt/nautobot/static'',
      METRICS_ENABLED = False,
      DATABASES = [''default'' \<mapsto> [''ENGINE'' \<mapsto> ''django.db.backends.postgresql'']],
      PAGINATE_COUNT = 50,
      PER_PAGE_DEFAULTS = [25, 50, 100, 250, 500, 1000],
      AUTHENTICATION_BACKENDS = [''nautobot.core.authentication.ObjectPermissionBackend''],
      RELEASE_CHECK_URL = None,
      RELEASE_CHECK_TIMEOUT = 86400,
      STORAGE_BACKEND = None,
      DEFAULT_FILE_STORAGE = ''django.core.files.storage.FileSystemStorage'',
      STORAGE_CONFIG = [],
      SOCIAL_AUTH_ENABLED = False,
      SOCIAL_AUTH_MODULE = [],
      INSTALLED_APPS = [''nautobot.core''],
      BASE_PATH = [],
      LOGIN_URL = ''/login/'',
      PLUGINS = [],
      PLUGINS_CONFIG = [],
      VERSION = ''1.0.0'',
      MIDDLEWARE = [],
      CACHEOPS = []\<rparr>"

definition sample_sso_settings :: settings where
  "sample_sso_settings =
     sample_settings\<lparr>SOCIAL_AUTH_ENABLED := True,
                      SOCIAL_AUTH_MODULE := ''social_core.backends.google.GoogleOAuth2'',
                      BASE_PATH := ''nautobot/''\<rparr>"

definition sample_config :: "settings \<Rightarrow> config" where
  "sample_config s =
     \<lparr>config_project = ''nautobot'', config_path = ''/opt/nautobot/nautobot_config.py'',
      config_settings = s\<rparr>"

definition sample_process :: "string list process" where
  "sample_process = \<lparr>filesystem = [], warnings = [], storages_utils_setting = Library_setting\<rparr>"

section \<open>Properties of the model\<close>

subsection \<open>Sequencing and preservation\<close>

lemma and_then_raised_None: "fst (and_then f g x) = None \<Longrightarrow> fst (f x) = None"
  by (auto simp: and_then_def split: prod.splits option.splits)

lemma and_then_pass: "fst (f x) = None \<Longrightarrow> and_then f g x = g (snd (f x))"
  by (cases "f x") (simp add: and_then_def)

lemma on_settings_apply: "on_settings h (s, p) = (fst (h s), snd (h s), p)"
  by (simp add: on_settings_def split: prod.splits)

lemma preserves_and_then: "preserves P f \<Longrightarrow> preserves P g \<Longrightarrow> preserves P (and_then f g)"
  unfolding preserves_def and_then_def
  by (auto split: prod.splits option.splits) (metis fst_conv snd_conv)+

lemma preserves_on_settings: "(\<And>s. P s \<Longrightarrow> P (snd (h s))) \<Longrightarrow> preserves P (on_settings h)"
  by (simp add: preserves_def on_settings_apply)

lemma preserves_storage_directories: "preserves P (storage_directories env)"
  by (simp add: preserves_def storage_directories_def split: prod.splits)

lemma preserves_storage_config_warning: "preserves P storage_config_warning"
  by (simp add: preserves_def storage_config_warning_def split: prod.splits)

lemma authentication_settings: "snd (authentication s) = s"
  by (simp add: authentication_def)

lemma release_check_url_result: "release_check_url s = (None, s)"
  by (simp add: release_check_url_def URLValidator_def split: option.splits)

lemma release_check_timeout_settings: "snd (release_check_timeout s) = s"
  by (simp add: release_check_timeout_def)

lemma preserves_databases:
  "(\<And>s d. P s \<Longrightarrow> P (s\<lparr>DATABASES := d\<rparr>)) \<Longrightarrow> preserves P (on_settings databases)"
  by (rule preserves_on_settings) (simp add: databases_def split: option.splits)

lemma preserves_pagination:
  "(\<And>s l. P s \<Longrightarrow> P (s\<lparr>PER_PAGE_DEFAULTS := l\<rparr>)) \<Longrightarrow> preserves P (on_settings pagination)"
  by (rule preserves_on_settings) (simp add: pagination_def)

lemma preserves_media_storage:
  "(\<And>s b. P s \<Longrightarrow> P (s\<lparr>DEFAULT_FILE_STORAGE := b\<rparr>)) \<Longrightarrow> preserves P (media_storage env)"
  by (simp add: preserves_def media_storage_def Let_def split: prod.splits option.splits)

lemma preserves_sso:
  assumes "\<And>s a. P s \<Longrightarrow> P (s\<lparr>INSTALLED_APPS := a\<rparr>)"
      and "\<And>s b. P s \<Longrightarrow> P (s\<lparr>AUTHENTICATION_BACKENDS := b\<rparr>)"
      and "\<And>s u. P s \<Longrightarrow> P (s\<lparr>LOGIN_URL := u\<rparr>)"
  shows "preserves P (sso env)"
  using assms
  by (simp add: preserves_def sso_def Let_def split: prod.splits sum.splits)

lemma preserves_plugins:
  assumes "\<And>s a. P s \<Longrightarrow> P (s\<lparr>INSTALLED_APPS := a\<rparr>)"
      and "\<And>s c. P s \<Longrightarrow> P (s\<lparr>PLUGINS_CONFIG := c\<rparr>)"
      and "\<And>s m. P s \<Longrightarrow> P (s\<lparr>MIDDLEWARE := m\<rparr>)"
      and "\<And>s c. P s \<Longrightarrow> P (s\<lparr>CACHEOPS := c\<rparr>)"
  shows "preserves P (plugins env)"
  using assms
  by (simp add: preserves_def plugins_def split: prod.splits)

subsection \<open>The remainder of the procedure\<close>

lemma configure_settings_unfold:
  "configure_settings env config p =
     and_then (storage_directories env) (from_databases env) (initial_settings config, p)"
  by (simp only: configure_settings_def from_databases_def from_pagination_def
        from_authentication_def from_release_check_url_def from_release_check_timeout_def
        from_media_storage_def from_storage_config_warning_def from_sso_def)

lemma preserves_from_sso:
  assumes "\<And>s a. P s \<Longrightarrow> P (s\<lparr>INSTALLED_APPS := a\<rparr>)"
      and "\<And>s b. P s \<Longrightarrow> P (s\<lparr>AUTHENTICATION_BACKENDS := b\<rparr>)"
      and "\<And>s u. P s \<Longrightarrow> P (s\<lparr>LOGIN_URL := u\<rparr>)"
      and "\<And>s c. P s \<Longrightarrow> P (s\<lparr>PLUGINS_CONFIG := c\<rparr>)"
      and "\<And>s m. P s \<Longrightarrow> P (s\<lparr>MIDDLEWARE := m\<rparr>)"
      and "\<And>s c. P s \<Longrightarrow> P (s\<lparr>CACHEOPS := c\<rparr>)"
  shows "preserves P (from_sso env)"
  unfolding from_sso_def
  by (intro preserves_and_then preserves_sso preserves_plugins) (erule assms)+

lemma preserves_from_authentication:
  assumes "\<And>s b. P s \<Longrightarrow> P (s\<lparr>DEFAULT_FILE_STORAGE := b\<rparr>)"
      and "\<And>s a. P s \<Longrightarrow> P (s\<lparr>INSTALLED_APPS := a\<rparr>)"
      and "\<And>s b. P s \<Longrightarrow> P (s\<lparr>AUTHENTICATION_BACKENDS := b\<rparr>)"
      and "\<And>s u. P s \<Longrightarrow> P (s\<lparr>LOGIN_URL := u\<rparr>)"
      and "\<And>s c. P s \<Longrightarrow> P (s\<lparr>PLUGINS_CONFIG := c\<rparr>)"
      and "\<And>s m. P s \<Longrightarrow> P (s\<lparr>MIDDLEWARE := m\<rparr>)"
      and "\<And>s c. P s \<Longrightarrow> P (s\<lparr>CACHEOPS := c\<rparr>)"
  shows "preserves P (from_authentication env)"
proof -
  have a: "preserves P (on_settings authentication)"
    by (rule preserves_on_settings) (simp add: authentication_settings)
  have u: "preserves P (on_settings release_check_url)"
    by (rule preserves_on_settings) (simp add: release_check_url_result)
  have t: "preserves P (on_settings release_check_timeout)"
    by (rule preserves_on_settings) (simp add: release_check_timeout_settings)
  have m: "preserves P (media_storage env)"
    by (rule preserves_media_storage) (erule assms(1))
  have s: "preserves P (from_sso env)"
    by (rule preserves_from_sso) (erule assms)+
  show ?thesis
    unfolding from_authentication_def from_release_check_url_def from_release_check_timeout_def
      from_media_storage_def from_storage_config_warning_def
    by (intro preserves_and_then a u t m s preserves_storage_config_warning)
qed

subsection \<open>Reaching a section\<close>

lemma storage_directories_fs_initial:
  "storage_directories_fs env (initial_settings config) = storage_directories_fs env (config_settings config)"
  by (simp add: storage_directories_fs_def initial_settings_def)

lemma storage_directories_apply:
  "storage_directories env (initial_settings config, p) =
     (fst (storage_directories_fs env (config_settings config) (filesystem p)),
      initial_settings config, process_after_directories env config p)"
  by (simp add: storage_directories_def storage_directories_fs_initial process_after_directories_def
        split: prod.splits)

lemma databases_initial:
  "fst (databases (initial_settings config)) = fst (databases (config_settings config))"
  by (simp add: databases_def initial_settings_def split: option.splits)

lemma pagination_passes: "fst (pagination s) = None"
  by (simp add: pagination_def)

lemma reach_databases:
  assumes "fst (storage_directories_fs env (config_settings config) (filesystem p)) = None"
  shows "configure_settings env config p =
           from_databases env (initial_settings config, process_after_directories env config p)"
  using assms by (simp add: configure_settings_unfold and_then_pass storage_directories_apply)

lemma reach_authentication:
  assumes "fst (storage_directories_fs env (config_settings config) (filesystem p)) = None"
      and "fst (databases (config_settings config)) = None"
  shows "configure_settings env config p =
           from_authentication env (settings_at_authentication config, process_after_directories env config p)"
  using assms
  by (simp add: reach_databases from_databases_def from_pagination_def and_then_pass
        on_settings_apply databases_initial pagination_passes settings_at_authentication_def)

lemma settings_at_authentication_fields:
  "PAGINATE_COUNT (settings_at_authentication config) = PAGINATE_COUNT (config_settings config)"
  "AUTHENTICATION_BACKENDS (settings_at_authentication config) = AUTHENTICATION_BACKENDS (config_settings config)"
  "RELEASE_CHECK_URL (settings_at_authentication config) = RELEASE_CHECK_URL (config_settings config)"
  "RELEASE_CHECK_TIMEOUT (settings_at_authentication config) = RELEASE_CHECK_TIMEOUT (config_settings config)"
  "STORAGE_BACKEND (settings_at_authentication config) = STORAGE_BACKEND (config_settings config)"
  "DEFAULT_FILE_STORAGE (settings_at_authentication config) = DEFAULT_FILE_STORAGE (config_settings config)"
  "STORAGE_CONFIG (settings_at_authentication config) = STORAGE_CONFIG (config_settings config)"
  "SOCIAL_AUTH_ENABLED (settings_at_authentication config) = SOCIAL_AUTH_ENABLED (config_settings config)"
  "SOCIAL_AUTH_MODULE (settings_at_authentication config) = SOCIAL_AUTH_MODULE (config_settings config)"
  "INSTALLED_APPS (settings_at_authentication config) = INSTALLED_APPS (config_settings config)"
  "BASE_PATH (settings_at_authentication config) = BASE_PATH (config_settings config)"
  "PLUGINS (settings_at_authentication config) = PLUGINS (config_settings config)"
  "PLUGINS_CONFIG (settings_at_authentication config) = PLUGINS_CONFIG (config_settings config)"
  "VERSION (settings_at_authentication config) = VERSION (config_settings config)"
  "MIDDLEWARE (settings_at_authentication config) = MIDDLEWARE (config_settings config)"
  "CACHEOPS (settings_at_authentication config) = CACHEOPS (config_settings config)"
  by (simp_all add: settings_at_authentication_def pagination_def databases_def initial_settings_def
        split: option.splits)

lemma reach_release_check_timeout:
  assumes "fst (storage_directories_fs env (config_settings config) (filesystem p)) = None"
      and "fst (databases (config_settings config)) = None"
      and "ObjectPermissionBackend \<in> set (AUTHENTICATION_BACKENDS (config_settings config))"
  shows "configure_settings env config p =
           from_release_check_timeout env (settings_at_authentication config, process_after_directories env config p)"
  using assms
  by (simp add: reach_authentication from_authentication_def from_release_check_url_def
        and_then_pass on_settings_apply release_check_url_result authentication_def
        settings_at_authentication_fields)

lemma reach_media_storage:
  assumes "fst (storage_directories_fs env (config_settings config) (filesystem p)) = None"
      and "fst (databases (config_settings config)) = None"
      and "ObjectPermissionBackend \<in> set (AUTHENTICATION_BACKENDS (config_settings config))"
      and "3600 \<le> RELEASE_CHECK_TIMEOUT (config_settings config)"
  shows "configure_settings env config p =
           from_media_storage env (settings_at_authentication config, process_after_directories env config p)"
  using assms
  by (simp add: reach_release_check_timeout from_release_check_timeout_def
        and_then_pass on_settings_apply release_check_timeout_def settings_at_authentication_fields)

subsection \<open>The sample deployment\<close>

lemma and_then_never_raises:
  assumes "\<And>x. fst (f x) = None" and "\<And>x. fst (g x) = None"
  shows "fst (and_then f g x) = None"
proof -
  have "and_then f g x = g (snd (f x))"
    by (rule and_then_pass) (rule assms(1))
  then show ?thesis
    by (simp add: assms(2))
qed

lemma sample_directories: "fst (storage_directories_fs sample_externals s f) = None"
  unfolding storage_directories_fs_def
  by (intro and_then_never_raises) (simp_all add: ensure_dir_def ensure_file_def sample_externals_def)

lemma sample_databases: "fst (databases (sample_settings\<lparr>AUTHENTICATION_BACKENDS := b\<rparr>)) = None"
  by (simp add: databases_def sample_settings_def)

lemma sample_reaches_media_storage:
  assumes "\<not> METRICS_ENABLED s"
      and "ObjectPermissionBackend \<in> set (AUTHENTICATION_BACKENDS s)"
      and "3600 \<le> RELEASE_CHECK_TIMEOUT s"
  shows "configure_settings sample_externals (sample_config s) sample_process =
           from_media_storage sample_externals
             (settings_at_authentication (sample_config s),
              process_after_directories sample_externals (sample_config s) sample_process)"
proof (rule reach_media_storage)
  show "fst (storage_directories_fs sample_externals (config_settings (sample_config s))
          (filesystem sample_process)) = None"
    by (rule sample_directories)
  show "fst (databases (config_settings (sample_config s))) = None"
    using assms(1) by (simp add: sample_config_def databases_def)
  show "ObjectPermissionBackend \<in> set (AUTHENTICATION_BACKENDS (config_settings (sample_config s)))"
    using assms(2) by (simp add: sample_config_def)
  show "3600 \<le> RELEASE_CHECK_TIMEOUT (config_settings (sample_config s))"
    using assms(3) by (simp add: sample_config_def)
qed

section \<open>The claims\<close>

subsection \<open>Authentication backend\<close>

text \<open>
  C3. When the directory and database sections raise nothing, a settings object whose
  \<open>AUTHENTICATION_BACKENDS\<close> lacks \<open>nautobot.core.authentication.ObjectPermissionBackend\<close> makes
  \<open>_configure_settings\<close> raise \<open>ImproperlyConfigured\<close> with the message of line 154. When the
  backend is present the authentication check raises nothing and leaves the settings as they
  are, and the run goes on with the release checks.
\<close>

theorem authentication_backend_required:
  assumes "fst (storage_directories_fs env (config_settings config) (filesystem p)) = None"
      and "fst (databases (config_settings config)) = None"
  shows "(ObjectPermissionBackend \<notin> set (AUTHENTICATION_BACKENDS (config_settings config)) \<longrightarrow>
            raised (configure_settings env config p) = Some (ImproperlyConfigured authentication_message)) \<and>
         (ObjectPermissionBackend \<in> set (AUTHENTICATION_BACKENDS (config_settings config)) \<longrightarrow>
            authentication (config_settings config) = (None, config_settings config) \<and>
            configure_settings env config p =
              from_release_check_url env (settings_at_authentication config, process_after_directories env config p))"
  using assms
  by (simp add: reach_authentication from_authentication_def and_then_def on_settings_apply
        authentication_def settings_at_authentication_fields)

theorem authentication_backend_required_witness:
  "raised (configure_settings sample_externals
             (sample_config (sample_settings\<lparr>AUTHENTICATION_BACKENDS := [''django.contrib.auth.backends.ModelBackend'']\<rparr>))
             sample_process)
     = Some (ImproperlyConfigured authentication_message) \<and>
   authentication sample_settings = (None, sample_settings)"
proof -
  let ?bad = "sample_config (sample_settings\<lparr>AUTHENTICATION_BACKENDS := [''django.contrib.auth.backends.ModelBackend'']\<rparr>)"
  have d: "fst (storage_directories_fs sample_externals (config_settings c) (filesystem sample_process)) = None" for c :: config
    by (rule sample_directories)
  have b1: "fst (databases (config_settings ?bad)) = None"
    by (simp add: sample_config_def sample_databases)
  have b2: "fst (databases (config_settings (sample_config sample_settings))) = None"
    by (simp add: sample_config_def databases_def sample_settings_def)
  have m1: "ObjectPermissionBackend \<notin> set (AUTHENTICATION_BACKENDS (config_settings ?bad))"
    by (simp add: sample_config_def ObjectPermissionBackend_def)
  have m2: "ObjectPermissionBackend \<in> set (AUTHENTICATION_BACKENDS (config_settings (sample_config sample_settings)))"
    by (simp add: sample_config_def sample_settings_def ObjectPermissionBackend_def)
  from authentication_backend_required [OF d b1] m1
  have "raised (configure_settings sample_externals ?bad sample_process)
          = Some (ImproperlyConfigured authentication_message)"
    by blast
  moreover from authentication_backend_required [OF d b2] m2
  have "authentication (config_settings (sample_config sample_settings))
          = (None, config_settings (sample_config sample_settings))"
    by blast
  ultimately show ?thesis by (simp add: sample_config_def)
qed

subsection \<open>Release check timeout\<close>

text \<open>
  C4. The timeout check raises \<open>ImproperlyConfigured\<close> exactly when \<open>RELEASE_CHECK_TIMEOUT\<close> is
  below 3600, and raises nothing exactly when it is at least 3600. When the sections before
  it raise nothing, a timeout below 3600 makes \<open>_configure_settings\<close> raise that error, and a
  timeout of at least 3600 lets the run go on with the media storage section.
\<close>

theorem release_check_timeout_minimum:
  assumes "fst (storage_directories_fs env (config_settings config) (filesystem p)) = None"
      and "fst (databases (config_settings config)) = None"
      and "ObjectPermissionBackend \<in> set (AUTHENTICATION_BACKENDS (config_settings config))"
  shows "(fst (release_check_timeout (config_settings config))
            = Some (ImproperlyConfigured release_check_timeout_message))
           = (RELEASE_CHECK_TIMEOUT (config_settings config) < 3600) \<and>
         (fst (release_check_timeout (config_settings config)) = None)
           = (3600 \<le> RELEASE_CHECK_TIMEOUT (config_settings config)) \<and>
         (RELEASE_CHECK_TIMEOUT (config_settings config) < 3600 \<longrightarrow>
            raised (configure_settings env config p)
              = Some (ImproperlyConfigured release_check_timeout_message)) \<and>
         (3600 \<le> RELEASE_CHECK_TIMEOUT (config_settings config) \<longrightarrow>
            configure_settings env config p =
              from_media_storage env (settings_at_authentication config, process_after_directories env config p))"
  using assms
  by (simp add: reach_release_check_timeout from_release_check_timeout_def and_then_def
        on_settings_apply release_check_timeout_def settings_at_authentication_fields)

theorem release_check_timeout_minimum_witness:
  "raised (configure_settings sample_externals
             (sample_config (sample_settings\<lparr>RELEASE_CHECK_TIMEOUT := 3599\<rparr>)) sample_process)
     = Some (ImproperlyConfigured release_check_timeout_message) \<and>
   fst (release_check_timeout (sample_settings\<lparr>RELEASE_CHECK_TIMEOUT := 3600\<rparr>)) = None"
proof -
  let ?low = "sample_config (sample_settings\<lparr>RELEASE_CHECK_TIMEOUT := 3599\<rparr>)"
  let ?min = "sample_config (sample_settings\<lparr>RELEASE_CHECK_TIMEOUT := 3600\<rparr>)"
  have d: "fst (storage_directories_fs sample_externals (config_settings c) (filesystem sample_process)) = None"
    for c :: config
    by (rule sample_directories)
  have b: "fst (databases (config_settings (sample_config (sample_settings\<lparr>RELEASE_CHECK_TIMEOUT := t\<rparr>)))) = None"
    for t
    by (simp add: sample_config_def databases_def sample_settings_def)
  have a: "ObjectPermissionBackend \<in> set (AUTHENTICATION_BACKENDS
             (config_settings (sample_config (sample_settings\<lparr>RELEASE_CHECK_TIMEOUT := t\<rparr>))))"
    for t
    by (simp add: sample_config_def sample_settings_def ObjectPermissionBackend_def)
  have low: "RELEASE_CHECK_TIMEOUT (config_settings ?low) < 3600"
    by (simp add: sample_config_def)
  have min: "3600 \<le> RELEASE_CHECK_TIMEOUT (config_settings ?min)"
    by (simp add: sample_config_def)
  from release_check_timeout_minimum [OF d b [of 3599] a [of 3599]] low
  have "raised (configure_settings sample_externals ?low sample_process)
          = Some (ImproperlyConfigured release_check_timeout_message)"
    by blast
  moreover from release_check_timeout_minimum [OF d b [of 3600] a [of 3600]] min
  have "fst (release_check_timeout (config_settings ?min)) = None"
    by blast
  ultimately show ?thesis
    by (simp add: sample_config_def)
qed

subsection \<open>Storage backend without django-storages\<close>

lemma install_instruction: "sublist ''pip install django-storages'' (storages_missing_message backend)"
  unfolding storages_missing_message_def sublist_def
  by (intro exI [of _ "''STORAGE_BACKEND is set to '' @ backend
          @ '' but django-storages is not present. It '' @ ''can be installed by running '' @ [CHR 0x27]"]
        exI [of _ "[CHR 0x27] @ ''.''"]) simp

lemma media_storage_missing:
  assumes "STORAGE_BACKEND s = Some backend" and "prefix ''storages.'' backend"
      and "import_storages_utils env = Some (ModuleNotFoundError ''storages'')"
  shows "media_storage env (s, p) =
           (Some (ImproperlyConfigured (storages_missing_message backend)),
            s\<lparr>DEFAULT_FILE_STORAGE := backend\<rparr>, p)"
  using assms by (simp add: media_storage_def)

text \<open>
  C7. When the media storage section is reached, \<open>STORAGE_BACKEND\<close> begins with \<open>storages.\<close>
  and \<open>import storages.utils\<close> fails because the package \<open>storages\<close> is missing,
  \<open>_configure_settings\<close> raises \<open>ImproperlyConfigured\<close> with a message that contains
  \<open>pip install django-storages\<close>.
\<close>

theorem storages_missing_install_instruction:
  assumes "fst (storage_directories_fs env (config_settings config) (filesystem p)) = None"
      and "fst (databases (config_settings config)) = None"
      and "ObjectPermissionBackend \<in> set (AUTHENTICATION_BACKENDS (config_settings config))"
      and "3600 \<le> RELEASE_CHECK_TIMEOUT (config_settings config)"
      and "STORAGE_BACKEND (config_settings config) = Some backend"
      and "prefix ''storages.'' backend"
      and "import_storages_utils env = Some (ModuleNotFoundError ''storages'')"
  shows "raised (configure_settings env config p)
           = Some (ImproperlyConfigured (storages_missing_message backend)) \<and>
         sublist ''pip install django-storages'' (storages_missing_message backend)"
proof -
  have "STORAGE_BACKEND (settings_at_authentication config) = Some backend"
    using assms(5) by (simp add: settings_at_authentication_fields)
  then have "raised (from_media_storage env
               (settings_at_authentication config, process_after_directories env config p))
             = Some (ImproperlyConfigured (storages_missing_message backend))"
    using assms(6,7) by (simp add: from_media_storage_def and_then_def media_storage_missing)
  then show ?thesis
    using assms(1-4) by (simp add: reach_media_storage install_instruction)
qed

theorem storages_missing_install_instruction_witness:
  "raised (configure_settings sample_externals
             (sample_config (sample_settings\<lparr>STORAGE_BACKEND := Some ''storages.backends.s3boto3.S3Boto3Storage''\<rparr>))
             sample_process)
     = Some (ImproperlyConfigured (storages_missing_message ''storages.backends.s3boto3.S3Boto3Storage'')) \<and>
   sublist ''pip install django-storages''
     (storages_missing_message ''storages.backends.s3boto3.S3Boto3Storage'')"
proof -
  let ?c = "sample_config (sample_settings\<lparr>STORAGE_BACKEND := Some ''storages.backends.s3boto3.S3Boto3Storage''\<rparr>)"
  have d: "fst (storage_directories_fs sample_externals (config_settings ?c) (filesystem sample_process)) = None"
    by (rule sample_directories)
  have b: "fst (databases (config_settings ?c)) = None"
    by (simp add: sample_config_def databases_def sample_settings_def)
  have a: "ObjectPermissionBackend \<in> set (AUTHENTICATION_BACKENDS (config_settings ?c))"
    by (simp add: sample_config_def sample_settings_def ObjectPermissionBackend_def)
  have t: "3600 \<le> RELEASE_CHECK_TIMEOUT (config_settings ?c)"
    by (simp add: sample_config_def sample_settings_def)
  have s: "STORAGE_BACKEND (config_settings ?c) = Some ''storages.backends.s3boto3.S3Boto3Storage''"
    by (simp add: sample_config_def)
  have x: "prefix ''storages.'' ''storages.backends.s3boto3.S3Boto3Storage''"
    by simp
  have i: "import_storages_utils sample_externals = Some (ModuleNotFoundError ''storages'')"
    by (simp add: sample_externals_def)
  show ?thesis
    by (rule storages_missing_install_instruction [OF d b a t s x i])
qed

subsection \<open>\<open>DEFAULT_FILE_STORAGE\<close> is assigned before the import check\<close>

lemma and_then_establishes:
  assumes "Q (fst (snd (f x)))" and "preserves Q g"
  shows "Q (fst (snd (and_then f g x)))"
proof (cases "fst (f x)")
  case None
  then have "and_then f g x = g (snd (f x))"
    by (rule and_then_pass)
  moreover from assms have "Q (fst (snd (g (snd (f x)))))"
    unfolding preserves_def by metis
  ultimately show ?thesis
    by simp
next
  case (Some e)
  then have "and_then f g x = (Some e, snd (f x))"
    by (cases "f x") (simp add: and_then_def)
  with assms(1) show ?thesis
    by simp
qed

lemma media_storage_default_file_storage:
  "STORAGE_BACKEND s = Some backend \<Longrightarrow>
     DEFAULT_FILE_STORAGE (fst (snd (media_storage env (s, p)))) = backend"
  by (simp add: media_storage_def Let_def split: option.splits)

lemma preserves_from_storage_config_warning:
  assumes "\<And>s a. P s \<Longrightarrow> P (s\<lparr>INSTALLED_APPS := a\<rparr>)"
      and "\<And>s b. P s \<Longrightarrow> P (s\<lparr>AUTHENTICATION_BACKENDS := b\<rparr>)"
      and "\<And>s u. P s \<Longrightarrow> P (s\<lparr>LOGIN_URL := u\<rparr>)"
      and "\<And>s c. P s \<Longrightarrow> P (s\<lparr>PLUGINS_CONFIG := c\<rparr>)"
      and "\<And>s m. P s \<Longrightarrow> P (s\<lparr>MIDDLEWARE := m\<rparr>)"
      and "\<And>s c. P s \<Longrightarrow> P (s\<lparr>CACHEOPS := c\<rparr>)"
  shows "preserves P (from_storage_config_warning env)"
  unfolding from_storage_config_warning_def
  by (intro preserves_and_then preserves_storage_config_warning preserves_from_sso) (erule assms)+

text \<open>
  C10. When the media storage section is reached with \<open>STORAGE_BACKEND\<close> not \<open>None\<close>, the
  settings object that \<open>_configure_settings\<close> leaves behind has \<open>DEFAULT_FILE_STORAGE\<close> equal to
  \<open>STORAGE_BACKEND\<close>, whether the run raises or not; in particular it has when the run ends
  with the missing-dependency \<open>ImproperlyConfigured\<close> error, so the error is not atomic with
  respect to the settings object.
\<close>

theorem default_file_storage_set_before_import:
  assumes "fst (storage_directories_fs env (config_settings config) (filesystem p)) = None"
      and "fst (databases (config_settings config)) = None"
      and "ObjectPermissionBackend \<in> set (AUTHENTICATION_BACKENDS (config_settings config))"
      and "3600 \<le> RELEASE_CHECK_TIMEOUT (config_settings config)"
      and "STORAGE_BACKEND (config_settings config) = Some backend"
  shows "DEFAULT_FILE_STORAGE (settings_after (configure_settings env config p)) = backend \<and>
         (prefix ''storages.'' backend \<and>
          import_storages_utils env = Some (ModuleNotFoundError ''storages'') \<longrightarrow>
            raised (configure_settings env config p)
              = Some (ImproperlyConfigured (storages_missing_message backend)))"
proof -
  let ?x = "(settings_at_authentication config, process_after_directories env config p)"
  have r: "configure_settings env config p = from_media_storage env ?x"
    using assms(1-4) by (rule reach_media_storage)
  have b: "STORAGE_BACKEND (settings_at_authentication config) = Some backend"
    using assms(5) by (simp add: settings_at_authentication_fields)
  have "DEFAULT_FILE_STORAGE (fst (snd (media_storage env ?x))) = backend"
    using b by (rule media_storage_default_file_storage)
  moreover have "preserves (\<lambda>s. DEFAULT_FILE_STORAGE s = backend) (from_storage_config_warning env)"
    by (rule preserves_from_storage_config_warning) simp_all
  ultimately have "DEFAULT_FILE_STORAGE (fst (snd (from_media_storage env ?x))) = backend"
    unfolding from_media_storage_def by (rule and_then_establishes)
  moreover have "raised (from_media_storage env ?x)
                   = Some (ImproperlyConfigured (storages_missing_message backend))"
    if "prefix ''storages.'' backend"
      and "import_storages_utils env = Some (ModuleNotFoundError ''storages'')"
    using b that by (simp add: from_media_storage_def and_then_def media_storage_missing)
  ultimately show ?thesis
    by (simp add: r)
qed

theorem default_file_storage_set_before_import_witness:
  "DEFAULT_FILE_STORAGE sample_settings = ''django.core.files.storage.FileSystemStorage'' \<and>
   DEFAULT_FILE_STORAGE (settings_after (configure_settings sample_externals
       (sample_config (sample_settings\<lparr>STORAGE_BACKEND := Some ''storages.backends.gcloud.GoogleCloudStorage''\<rparr>))
       sample_process))
     = ''storages.backends.gcloud.GoogleCloudStorage'' \<and>
   raised (configure_settings sample_externals
       (sample_config (sample_settings\<lparr>STORAGE_BACKEND := Some ''storages.backends.gcloud.GoogleCloudStorage''\<rparr>))
       sample_process)
     = Some (ImproperlyConfigured (storages_missing_message ''storages.backends.gcloud.GoogleCloudStorage''))"
proof -
  let ?c = "sample_config (sample_settings\<lparr>STORAGE_BACKEND := Some ''storages.backends.gcloud.GoogleCloudStorage''\<rparr>)"
  have d: "fst (storage_directories_fs sample_externals (config_settings ?c) (filesystem sample_process)) = None"
    by (rule sample_directories)
  have b: "fst (databases (config_settings ?c)) = None"
    by (simp add: sample_config_def databases_def sample_settings_def)
  have a: "ObjectPermissionBackend \<in> set (AUTHENTICATION_BACKENDS (config_settings ?c))"
    by (simp add: sample_config_def sample_settings_def ObjectPermissionBackend_def)
  have t: "3600 \<le> RELEASE_CHECK_TIMEOUT (config_settings ?c)"
    by (simp add: sample_config_def sample_settings_def)
  have s: "STORAGE_BACKEND (config_settings ?c) = Some ''storages.backends.gcloud.GoogleCloudStorage''"
    by (simp add: sample_config_def)
  have x: "prefix ''storages.'' ''storages.backends.gcloud.GoogleCloudStorage''"
    by simp
  have i: "import_storages_utils sample_externals = Some (ModuleNotFoundError ''storages'')"
    by (simp add: sample_externals_def)
  have o: "DEFAULT_FILE_STORAGE sample_settings = ''django.core.files.storage.FileSystemStorage''"
    by (simp add: sample_settings_def)
  from default_file_storage_set_before_import [OF d b a t s] x i o
  show ?thesis
    by blast
qed

subsection \<open>Storage configuration without a backend\<close>

lemma from_sso_process: "process_after (from_sso env (s, p)) = p"
  by (simp add: from_sso_def and_then_def sso_def plugins_def Let_def
        split: prod.splits option.splits sum.splits)

lemma storage_step_warns:
  assumes "STORAGE_CONFIG s \<noteq> []" and "STORAGE_BACKEND s = None"
  shows "and_then (media_storage env) storage_config_warning (s, q)
           = (None, s, q\<lparr>warnings := warnings q @ [storage_config_message]\<rparr>)"
  using assms by (simp add: and_then_def media_storage_def storage_config_warning_def)

lemma from_sso_without_sso:
  assumes "\<not> SOCIAL_AUTH_ENABLED s"
  shows "raised (from_sso env (s, q))
           = fst (load_plugins env (PLUGINS s) (INSTALLED_APPS s) (PLUGINS_CONFIG s) (VERSION s)
                    (MIDDLEWARE s) (CACHEOPS s))"
  using assms
  by (simp add: from_sso_def and_then_def sso_def plugins_def split: prod.splits)

text \<open>
  C8. With a non-empty \<open>STORAGE_CONFIG\<close> and \<open>STORAGE_BACKEND\<close> equal to \<open>None\<close>, the storage
  section (lines 179--207) raises nothing, leaves the settings object as it is and appends one
  warning. When the section is reached, \<open>_configure_settings\<close> goes on with the SSO and plugin
  sections, the warning is among the warnings it leaves behind, and it completes without an
  exception when SSO is disabled and the plugin loader raises nothing.
\<close>

theorem storage_config_without_backend_warns:
  assumes "fst (storage_directories_fs env (config_settings config) (filesystem p)) = None"
      and "fst (databases (config_settings config)) = None"
      and "ObjectPermissionBackend \<in> set (AUTHENTICATION_BACKENDS (config_settings config))"
      and "3600 \<le> RELEASE_CHECK_TIMEOUT (config_settings config)"
      and "STORAGE_CONFIG (config_settings config) \<noteq> []"
      and "STORAGE_BACKEND (config_settings config) = None"
  shows "and_then (media_storage env) storage_config_warning (config_settings config, q)
           = (None, config_settings config, q\<lparr>warnings := warnings q @ [storage_config_message]\<rparr>) \<and>
         configure_settings env config p
           = from_sso env (settings_at_authentication config,
               (process_after_directories env config p)\<lparr>warnings := warnings p @ [storage_config_message]\<rparr>) \<and>
         warnings (process_after (configure_settings env config p))
           = warnings p @ [storage_config_message] \<and>
         (\<not> SOCIAL_AUTH_ENABLED (config_settings config) \<and>
          fst (load_plugins env (PLUGINS (config_settings config)) (INSTALLED_APPS (config_settings config))
                 (PLUGINS_CONFIG (config_settings config)) (VERSION (config_settings config))
                 (MIDDLEWARE (config_settings config)) (CACHEOPS (config_settings config))) = None \<longrightarrow>
            raised (configure_settings env config p) = None)"
proof -
  let ?s = "settings_at_authentication config"
  let ?p = "process_after_directories env config p"
  let ?q = "?p\<lparr>warnings := warnings p @ [storage_config_message]\<rparr>"
  have c: "STORAGE_CONFIG ?s \<noteq> []" and b: "STORAGE_BACKEND ?s = None"
    using assms(5,6) by (simp_all add: settings_at_authentication_fields)
  have w: "warnings ?p = warnings p"
    by (simp add: process_after_directories_def)
  have m: "media_storage env (?s, ?p) = (None, ?s, ?p)"
    using b by (simp add: media_storage_def)
  have v: "storage_config_warning (?s, ?p) = (None, ?s, ?q)"
    using c b by (simp add: storage_config_warning_def w)
  have "configure_settings env config p = from_media_storage env (?s, ?p)"
    using assms(1-4) by (rule reach_media_storage)
  also have "\<dots> = from_sso env (?s, ?q)"
    by (simp add: from_media_storage_def from_storage_config_warning_def and_then_def m v)
  finally have r: "configure_settings env config p = from_sso env (?s, ?q)" .
  have 1: "and_then (media_storage env) storage_config_warning (config_settings config, q)
           = (None, config_settings config, q\<lparr>warnings := warnings q @ [storage_config_message]\<rparr>)"
    using assms(5,6) by (rule storage_step_warns)
  have 3: "warnings (process_after (configure_settings env config p)) = warnings p @ [storage_config_message]"
    by (simp add: r from_sso_process)
  have 4: "raised (configure_settings env config p) = None"
    if "\<not> SOCIAL_AUTH_ENABLED (config_settings config)"
      and "fst (load_plugins env (PLUGINS (config_settings config)) (INSTALLED_APPS (config_settings config))
                 (PLUGINS_CONFIG (config_settings config)) (VERSION (config_settings config))
                 (MIDDLEWARE (config_settings config)) (CACHEOPS (config_settings config))) = None"
  proof -
    have "\<not> SOCIAL_AUTH_ENABLED ?s"
      using that(1) by (simp add: settings_at_authentication_fields)
    then show ?thesis
      using that(2) by (simp add: r from_sso_without_sso settings_at_authentication_fields)
  qed
  from 1 r 3 4 show ?thesis
    by blast
qed

theorem storage_config_without_backend_warns_witness:
  "raised (configure_settings sample_externals
             (sample_config (sample_settings\<lparr>STORAGE_CONFIG := [(''AWS_ACCESS_KEY_ID'', ''key'')]\<rparr>))
             sample_process) = None \<and>
   warnings (process_after (configure_settings sample_externals
             (sample_config (sample_settings\<lparr>STORAGE_CONFIG := [(''AWS_ACCESS_KEY_ID'', ''key'')]\<rparr>))
             sample_process)) = [storage_config_message]"
proof -
  let ?c = "sample_config (sample_settings\<lparr>STORAGE_CONFIG := [(''AWS_ACCESS_KEY_ID'', ''key'')]\<rparr>)"
  have d: "fst (storage_directories_fs sample_externals (config_settings ?c) (filesystem sample_process)) = None"
    by (rule sample_directories)
  have b: "fst (databases (config_settings ?c)) = None"
    by (simp add: sample_config_def databases_def sample_settings_def)
  have a: "ObjectPermissionBackend \<in> set (AUTHENTICATION_BACKENDS (config_settings ?c))"
    by (simp add: sample_config_def sample_settings_def ObjectPermissionBackend_def)
  have t: "3600 \<le> RELEASE_CHECK_TIMEOUT (config_settings ?c)"
    by (simp add: sample_config_def sample_settings_def)
  have c: "STORAGE_CONFIG (config_settings ?c) \<noteq> []"
    by (simp add: sample_config_def)
  have n: "STORAGE_BACKEND (config_settings ?c) = None"
    by (simp add: sample_config_def sample_settings_def)
  have s: "\<not> SOCIAL_AUTH_ENABLED (config_settings ?c)"
    by (simp add: sample_config_def sample_settings_def)
  have l: "fst (load_plugins sample_externals (PLUGINS (config_settings ?c)) (INSTALLED_APPS (config_settings ?c))
                 (PLUGINS_CONFIG (config_settings ?c)) (VERSION (config_settings ?c))
                 (MIDDLEWARE (config_settings ?c)) (CACHEOPS (config_settings ?c))) = None"
    by (simp add: sample_externals_def)
  have w: "warnings sample_process = []"
    by (simp add: sample_process_def)
  note run = storage_config_without_backend_warns [OF d b a t c n]
  from run s l have "raised (configure_settings sample_externals ?c sample_process) = None"
    by blast
  moreover from run
  have "warnings (process_after (configure_settings sample_externals ?c sample_process))
          = warnings sample_process @ [storage_config_message]"
    by blast
  ultimately show ?thesis
    by (simp add: w)
qed

subsection \<open>A page size that is already listed\<close>

lemma preserves_from_pagination_page_sizes:
  assumes "v \<in> set l"
  shows "preserves (\<lambda>s. PAGINATE_COUNT s = v \<and> PER_PAGE_DEFAULTS s = l) (from_pagination env)"
proof -
  have "preserves (\<lambda>s. PAGINATE_COUNT s = v \<and> PER_PAGE_DEFAULTS s = l) (on_settings pagination)"
    using assms by (intro preserves_on_settings) (simp add: pagination_def)
  moreover have "preserves (\<lambda>s. PAGINATE_COUNT s = v \<and> PER_PAGE_DEFAULTS s = l) (from_authentication env)"
    by (rule preserves_from_authentication) simp_all
  ultimately show ?thesis
    unfolding from_pagination_def by (rule preserves_and_then)
qed

lemma preserves_configure_settings:
  assumes "preserves P (from_databases env)" and "P (initial_settings config)"
  shows "P (settings_after (configure_settings env config p))"
proof -
  have "preserves P (and_then (storage_directories env) (from_databases env))"
    using preserves_storage_directories assms(1) by (rule preserves_and_then)
  with assms(2) show ?thesis
    by (simp add: configure_settings_unfold preserves_def)
qed

lemma present_page_size_kept:
  assumes "PAGINATE_COUNT (config_settings config) \<in> set (PER_PAGE_DEFAULTS (config_settings config))"
  shows "PAGINATE_COUNT (settings_after (configure_settings env config p)) = PAGINATE_COUNT (config_settings config) \<and>
         PER_PAGE_DEFAULTS (settings_after (configure_settings env config p)) = PER_PAGE_DEFAULTS (config_settings config)"
proof -
  let ?P = "\<lambda>s. PAGINATE_COUNT s = PAGINATE_COUNT (config_settings config) \<and>
                PER_PAGE_DEFAULTS s = PER_PAGE_DEFAULTS (config_settings config)"
  have "preserves ?P (on_settings databases)"
    by (rule preserves_databases) simp
  moreover have "preserves ?P (from_pagination env)"
    using assms by (rule preserves_from_pagination_page_sizes)
  ultimately have "preserves ?P (from_databases env)"
    unfolding from_databases_def by (rule preserves_and_then)
  moreover have "?P (initial_settings config)"
    by (simp add: initial_settings_def)
  ultimately show ?thesis
    by (rule preserves_configure_settings)
qed

text \<open>
  C9. When \<open>PAGINATE_COUNT\<close> is already a member of \<open>PER_PAGE_DEFAULTS\<close>, the pagination
  section returns the settings object as it received it, and the settings object that
  \<open>_configure_settings\<close> leaves behind has the very same \<open>PER_PAGE_DEFAULTS\<close>: nothing is
  appended and nothing is sorted, so an unsorted list stays unsorted.
\<close>

theorem present_page_size_leaves_list:
  assumes "PAGINATE_COUNT (config_settings config) \<in> set (PER_PAGE_DEFAULTS (config_settings config))"
  shows "pagination (config_settings config) = (None, config_settings config) \<and>
         PER_PAGE_DEFAULTS (settings_after (configure_settings env config p))
           = PER_PAGE_DEFAULTS (config_settings config)"
  using assms present_page_size_kept [OF assms, of env p] by (simp add: pagination_def)

theorem present_page_size_leaves_list_witness:
  "PER_PAGE_DEFAULTS (settings_after (configure_settings sample_externals
       (sample_config (sample_settings\<lparr>PER_PAGE_DEFAULTS := [100, 50, 25]\<rparr>)) sample_process))
     = [100, 50, 25] \<and>
   \<not> sorted [100, 50, 25 :: int]"
proof -
  let ?c = "sample_config (sample_settings\<lparr>PER_PAGE_DEFAULTS := [100, 50, 25]\<rparr>)"
  have m: "PAGINATE_COUNT (config_settings ?c) \<in> set (PER_PAGE_DEFAULTS (config_settings ?c))"
    by (simp add: sample_config_def sample_settings_def)
  have l: "PER_PAGE_DEFAULTS (config_settings ?c) = [100, 50, 25]"
    by (simp add: sample_config_def)
  from present_page_size_leaves_list [OF m, of sample_externals sample_process] l
  show ?thesis
    by simp
qed

subsection \<open>A page size that is not yet listed\<close>

lemma settings_at_authentication_page_sizes:
  "PER_PAGE_DEFAULTS (settings_at_authentication config) =
     (if PAGINATE_COUNT (config_settings config) \<notin> set (PER_PAGE_DEFAULTS (config_settings config))
      then sort (PER_PAGE_DEFAULTS (config_settings config) @ [PAGINATE_COUNT (config_settings config)])
      else PER_PAGE_DEFAULTS (config_settings config))"
  by (simp add: settings_at_authentication_def pagination_def databases_def initial_settings_def
        split: option.splits)

lemma count_list_sort: "count_list (sort xs) (v::int) = count_list xs v"
  by (simp add: count_list_eq_length_filter filter_sort)

lemma count_list_absent: "v \<notin> set xs \<Longrightarrow> count_list xs v = 0"
  by (induction xs) auto

text \<open>
  C2. When \<open>PAGINATE_COUNT\<close> is not a member of \<open>PER_PAGE_DEFAULTS\<close> and the directory and
  database sections raise nothing, the settings object \<open>s'\<close> that \<open>_configure_settings\<close> leaves
  behind has the old list with the value appended, sorted ascending: the value is a member,
  the list is sorted and holds the value once. The step is idempotent: the pagination section
  returns \<open>s'\<close> unchanged, and a second run of \<open>_configure_settings\<close> on \<open>s'\<close>, in any
  environment, leaves the list as it is.
\<close>

theorem absent_page_size_added:
  assumes "fst (storage_directories_fs env (config_settings config) (filesystem p)) = None"
      and "fst (databases (config_settings config)) = None"
      and "PAGINATE_COUNT (config_settings config) \<notin> set (PER_PAGE_DEFAULTS (config_settings config))"
      and "configure_settings env config p = (r, s', p')"
  shows "PAGINATE_COUNT s' = PAGINATE_COUNT (config_settings config) \<and>
         PER_PAGE_DEFAULTS s'
           = sort (PER_PAGE_DEFAULTS (config_settings config) @ [PAGINATE_COUNT (config_settings config)]) \<and>
         PAGINATE_COUNT s' \<in> set (PER_PAGE_DEFAULTS s') \<and>
         sorted (PER_PAGE_DEFAULTS s') \<and>
         count_list (PER_PAGE_DEFAULTS s') (PAGINATE_COUNT s') = 1 \<and>
         pagination s' = (None, s') \<and>
         PER_PAGE_DEFAULTS (settings_after (configure_settings env2 (config\<lparr>config_settings := s'\<rparr>) p2))
           = PER_PAGE_DEFAULTS s'"
proof -
  let ?v = "PAGINATE_COUNT (config_settings config)"
  let ?l = "sort (PER_PAGE_DEFAULTS (config_settings config) @ [?v])"
  let ?P = "\<lambda>s. PAGINATE_COUNT s = ?v \<and> PER_PAGE_DEFAULTS s = ?l"
  have "configure_settings env config p
          = from_authentication env (settings_at_authentication config, process_after_directories env config p)"
    using assms(1,2) by (rule reach_authentication)
  moreover have "preserves ?P (from_authentication env)"
    by (rule preserves_from_authentication) simp_all
  moreover have "?P (settings_at_authentication config)"
    using assms(3) by (simp add: settings_at_authentication_fields settings_at_authentication_page_sizes)
  ultimately have "?P (settings_after (configure_settings env config p))"
    by (simp add: preserves_def)
  then have v: "PAGINATE_COUNT s' = ?v" and l: "PER_PAGE_DEFAULTS s' = ?l"
    by (simp_all add: assms(4))
  have m: "PAGINATE_COUNT s' \<in> set (PER_PAGE_DEFAULTS s')"
    by (simp add: v l)
  have c: "count_list (PER_PAGE_DEFAULTS s') (PAGINATE_COUNT s') = 1"
    using assms(3) by (simp add: v l count_list_sort count_list_absent)
  have i: "pagination s' = (None, s')"
    using m by (simp add: pagination_def)
  have "PAGINATE_COUNT (config_settings (config\<lparr>config_settings := s'\<rparr>))
          \<in> set (PER_PAGE_DEFAULTS (config_settings (config\<lparr>config_settings := s'\<rparr>)))"
    using m by simp
  from present_page_size_kept [OF this, of env2 p2]
  have k: "PER_PAGE_DEFAULTS (settings_after (configure_settings env2 (config\<lparr>config_settings := s'\<rparr>) p2))
             = PER_PAGE_DEFAULTS s'"
    by simp
  from v l m c i k show ?thesis
    by simp
qed

theorem absent_page_size_added_witness:
  "PER_PAGE_DEFAULTS (settings_after (configure_settings sample_externals
       (sample_config (sample_settings\<lparr>PAGINATE_COUNT := 75\<rparr>)) sample_process))
     = [25, 50, 75, 100, 250, 500, 1000] \<and>
   PER_PAGE_DEFAULTS (settings_after (configure_settings sample_externals
       ((sample_config (sample_settings\<lparr>PAGINATE_COUNT := 75\<rparr>))
          \<lparr>config_settings := settings_after (configure_settings sample_externals
              (sample_config (sample_settings\<lparr>PAGINATE_COUNT := 75\<rparr>)) sample_process)\<rparr>)
       sample_process))
     = [25, 50, 75, 100, 250, 500, 1000]"
proof -
  let ?c = "sample_config (sample_settings\<lparr>PAGINATE_COUNT := 75\<rparr>)"
  obtain r s' p' where run: "configure_settings sample_externals ?c sample_process = (r, s', p')"
    by (cases "configure_settings sample_externals ?c sample_process") auto
  have d: "fst (storage_directories_fs sample_externals (config_settings ?c) (filesystem sample_process)) = None"
    by (rule sample_directories)
  have b: "fst (databases (config_settings ?c)) = None"
    by (simp add: sample_config_def databases_def sample_settings_def)
  have a: "PAGINATE_COUNT (config_settings ?c) \<notin> set (PER_PAGE_DEFAULTS (config_settings ?c))"
    by (simp add: sample_config_def sample_settings_def)
  have l: "sort (PER_PAGE_DEFAULTS (config_settings ?c) @ [PAGINATE_COUNT (config_settings ?c)])
             = [25, 50, 75, 100, 250, 500, 1000]"
    by (simp add: sample_config_def sample_settings_def)
  from absent_page_size_added [OF d b a run, of sample_externals sample_process] l
  show ?thesis
    by (simp add: run)
qed

subsection \<open>Database engine under metrics\<close>

lemma preserves_from_pagination_databases:
  "preserves (\<lambda>s. Q (METRICS_ENABLED s) (DATABASES s)) (from_pagination env)"
proof -
  have "preserves (\<lambda>s. Q (METRICS_ENABLED s) (DATABASES s)) (on_settings pagination)"
    by (rule preserves_pagination) simp
  moreover have "preserves (\<lambda>s. Q (METRICS_ENABLED s) (DATABASES s)) (from_authentication env)"
    by (rule preserves_from_authentication) simp_all
  ultimately show ?thesis
    unfolding from_pagination_def by (rule preserves_and_then)
qed

lemma databases_swaps_engine:
  assumes "METRICS_ENABLED s" and "database_engine s = Some engine" and "sublist ''postgres'' engine"
  shows "fst (databases s) = None \<and>
         database_engine (snd (databases s)) = Some ''django_prometheus.db.backends.postgresql''"
  using assms by (auto simp: databases_def database_engine_def split: option.splits)

lemma databases_keeps_engine:
  assumes "\<not> METRICS_ENABLED s \<or> (\<forall>engine. database_engine s = Some engine \<longrightarrow> \<not> sublist ''postgres'' engine)"
  shows "DATABASES (snd (databases s)) = DATABASES s"
  using assms by (auto simp: databases_def database_engine_def split: option.splits)

lemma database_engine_initial: "database_engine (initial_settings config) = database_engine (config_settings config)"
  by (simp add: database_engine_def initial_settings_def)

text \<open>
  C6. When the directory section raises nothing, \<open>METRICS_ENABLED\<close> is true and the engine string
  \<open>DATABASES["default"]["ENGINE"]\<close> contains \<open>postgres\<close>, the settings object that
  \<open>_configure_settings\<close> leaves behind has the engine string
  \<open>django_prometheus.db.backends.postgresql\<close>. When \<open>METRICS_ENABLED\<close> is false, or the engine
  string does not contain \<open>postgres\<close>, \<open>DATABASES\<close> is left as it was.
\<close>

theorem metrics_database_engine:
  "(fst (storage_directories_fs env (config_settings config) (filesystem p)) = None \<and>
    METRICS_ENABLED (config_settings config) \<and>
    database_engine (config_settings config) = Some engine \<and>
    sublist ''postgres'' engine \<longrightarrow>
      database_engine (settings_after (configure_settings env config p))
        = Some ''django_prometheus.db.backends.postgresql'') \<and>
   (\<not> METRICS_ENABLED (config_settings config) \<or>
    (\<forall>e. database_engine (config_settings config) = Some e \<longrightarrow> \<not> sublist ''postgres'' e) \<longrightarrow>
      DATABASES (settings_after (configure_settings env config p)) = DATABASES (config_settings config))"
proof (intro conjI impI)
  assume a: "fst (storage_directories_fs env (config_settings config) (filesystem p)) = None \<and>
    METRICS_ENABLED (config_settings config) \<and>
    database_engine (config_settings config) = Some engine \<and>
    sublist ''postgres'' engine"
  let ?s0 = "initial_settings config"
  let ?p = "process_after_directories env config p"
  let ?new = "Some ''django_prometheus.db.backends.postgresql''"
  have "METRICS_ENABLED ?s0" and "database_engine ?s0 = Some engine"
    using a by (simp_all add: database_engine_initial) (simp add: initial_settings_def)
  with a have d: "fst (databases ?s0) = None" and e: "database_engine (snd (databases ?s0)) = ?new"
    using databases_swaps_engine [of ?s0 engine] by simp_all
  have "configure_settings env config p = from_databases env (?s0, ?p)"
    using a by (simp add: reach_databases)
  also have "\<dots> = from_pagination env (snd (databases ?s0), ?p)"
    using d by (simp add: from_databases_def and_then_pass on_settings_apply)
  finally have r: "configure_settings env config p = from_pagination env (snd (databases ?s0), ?p)" .
  have "preserves (\<lambda>s. database_engine s = ?new) (from_pagination env)"
    unfolding database_engine_def
    by (rule preserves_from_pagination_databases [of "\<lambda>m d. (case d ''default'' of None \<Rightarrow> None | Some x \<Rightarrow> x ''ENGINE'') = ?new"])
  with e show "database_engine (settings_after (configure_settings env config p)) = ?new"
    by (simp add: r preserves_def)
next
  assume a: "\<not> METRICS_ENABLED (config_settings config) \<or>
    (\<forall>e. database_engine (config_settings config) = Some e \<longrightarrow> \<not> sublist ''postgres'' e)"
  let ?m = "METRICS_ENABLED (config_settings config)"
  let ?d = "DATABASES (config_settings config)"
  let ?P = "\<lambda>s. METRICS_ENABLED s = ?m \<and> DATABASES s = ?d"
  have "?P (snd (databases s))" if "?P s" for s
  proof -
    have "database_engine s = database_engine (config_settings config)"
      using that by (simp add: database_engine_def)
    with a that have "DATABASES (snd (databases s)) = DATABASES s"
      by (intro databases_keeps_engine) simp
    moreover have "METRICS_ENABLED (snd (databases s)) = METRICS_ENABLED s"
      by (simp add: databases_def split: option.splits)
    ultimately show ?thesis
      using that by simp
  qed
  then have "preserves ?P (on_settings databases)"
    by (rule preserves_on_settings)
  moreover have "preserves ?P (from_pagination env)"
    by (rule preserves_from_pagination_databases [of "\<lambda>m d. m = ?m \<and> d = ?d"])
  ultimately have "preserves ?P (from_databases env)"
    unfolding from_databases_def by (rule preserves_and_then)
  moreover have "?P (initial_settings config)"
    by (simp add: initial_settings_def)
  ultimately have "?P (settings_after (configure_settings env config p))"
    by (rule preserves_configure_settings)
  then show "DATABASES (settings_after (configure_settings env config p)) = ?d"
    by simp
qed

theorem metrics_database_engine_witness:
  "database_engine (settings_after (configure_settings sample_externals
       (sample_config (sample_settings\<lparr>METRICS_ENABLED := True\<rparr>)) sample_process))
     = Some ''django_prometheus.db.backends.postgresql'' \<and>
   DATABASES (settings_after (configure_settings sample_externals
       (sample_config sample_settings) sample_process))
     = DATABASES sample_settings"
proof -
  let ?on = "sample_config (sample_settings\<lparr>METRICS_ENABLED := True\<rparr>)"
  let ?off = "sample_config sample_settings"
  have d: "fst (storage_directories_fs sample_externals (config_settings ?on) (filesystem sample_process)) = None"
    by (rule sample_directories)
  have m: "METRICS_ENABLED (config_settings ?on)"
    by (simp add: sample_config_def)
  have e: "database_engine (config_settings ?on) = Some ''django.db.backends.postgresql''"
    by (simp add: sample_config_def sample_settings_def database_engine_def)
  have s: "sublist ''postgres'' ''django.db.backends.postgresql''"
    by code_simp
  have n: "\<not> METRICS_ENABLED (config_settings ?off)"
    by (simp add: sample_config_def sample_settings_def)
  from metrics_database_engine [of sample_externals ?on sample_process "''django.db.backends.postgresql''"]
    d m e s
  have "database_engine (settings_after (configure_settings sample_externals ?on sample_process))
          = Some ''django_prometheus.db.backends.postgresql''"
    by blast
  moreover from metrics_database_engine [of sample_externals ?off sample_process] n
  have "DATABASES (settings_after (configure_settings sample_externals ?off sample_process))
          = DATABASES (config_settings ?off)"
    by blast
  ultimately show ?thesis
    by (simp add: sample_config_def)
qed

subsection \<open>Single sign-on\<close>

lemma and_then_NoneD: "and_then f g x = (None, z) \<Longrightarrow> \<exists>y. f x = (None, y) \<and> g y = (None, z)"
  by (auto simp: and_then_def split: prod.splits option.splits)

lemma completed_run_reaches_media_storage:
  assumes "raised (configure_settings env config p) = None"
  shows "configure_settings env config p =
           from_media_storage env (settings_at_authentication config, process_after_directories env config p)"
proof -
  let ?x = "(settings_at_authentication config, process_after_directories env config p)"
  have "fst (storage_directories env (initial_settings config, p)) = None"
    using assms unfolding configure_settings_unfold by (rule and_then_raised_None)
  then have d: "fst (storage_directories_fs env (config_settings config) (filesystem p)) = None"
    by (simp add: storage_directories_apply)
  then have "fst (from_databases env (initial_settings config, process_after_directories env config p)) = None"
    using assms by (simp add: reach_databases)
  then have "fst (on_settings databases (initial_settings config, process_after_directories env config p)) = None"
    unfolding from_databases_def by (rule and_then_raised_None)
  then have b: "fst (databases (config_settings config)) = None"
    by (simp add: on_settings_apply databases_initial)
  have "fst (from_authentication env ?x) = None"
    using assms by (simp add: reach_authentication [OF d b])
  then have "fst (on_settings authentication ?x) = None"
    unfolding from_authentication_def by (rule and_then_raised_None)
  then have a: "ObjectPermissionBackend \<in> set (AUTHENTICATION_BACKENDS (config_settings config))"
    by (simp add: on_settings_apply authentication_def settings_at_authentication_fields split: if_splits)
  have "fst (from_release_check_timeout env ?x) = None"
    using assms by (simp add: reach_release_check_timeout [OF d b a])
  then have "fst (on_settings release_check_timeout ?x) = None"
    unfolding from_release_check_timeout_def by (rule and_then_raised_None)
  then have t: "3600 \<le> RELEASE_CHECK_TIMEOUT (config_settings config)"
    by (simp add: on_settings_apply release_check_timeout_def settings_at_authentication_fields
          split: if_splits)
  show ?thesis
    using d b a t by (rule reach_media_storage)
qed

lemma media_storage_passD:
  "media_storage env (s, p) = (r, s1, p1) \<Longrightarrow> \<exists>b. s1 = s\<lparr>DEFAULT_FILE_STORAGE := b\<rparr>"
  by (auto simp: media_storage_def Let_def split: option.splits if_splits
        intro: exI [of _ "DEFAULT_FILE_STORAGE s"])

lemma storage_config_warning_passD: "storage_config_warning (s, p) = (r, s1, p1) \<Longrightarrow> s1 = s"
  by (auto simp: storage_config_warning_def split: if_splits)

lemma sso_passD:
  assumes "SOCIAL_AUTH_ENABLED s" and "sso env (s, p) = (None, s1, p1)"
  shows "\<exists>name. get_sso_backend_name env (SOCIAL_AUTH_MODULE s) = Inr name \<and>
           s1 = s\<lparr>INSTALLED_APPS := INSTALLED_APPS s @ [''social_django''],
                  AUTHENTICATION_BACKENDS := SOCIAL_AUTH_MODULE s # AUTHENTICATION_BACKENDS s,
                  LOGIN_URL := login_url (BASE_PATH s) name\<rparr>"
  using assms by (auto simp: sso_def Let_def split: sum.splits)

lemma plugins_passD:
  assumes "plugins env (s, p) = (None, s1, p1)"
  shows "load_plugins env (PLUGINS s) (INSTALLED_APPS s) (PLUGINS_CONFIG s) (VERSION s) (MIDDLEWARE s)
           (CACHEOPS s) = (None, INSTALLED_APPS s1, PLUGINS_CONFIG s1, MIDDLEWARE s1, CACHEOPS s1) \<and>
         AUTHENTICATION_BACKENDS s1 = AUTHENTICATION_BACKENDS s \<and> LOGIN_URL s1 = LOGIN_URL s"
  using assms by (auto simp: plugins_def split: prod.splits)

lemma sso_completed_run:
  assumes "SOCIAL_AUTH_ENABLED (config_settings config)"
      and "configure_settings env config p = (None, s', p')"
  shows "\<exists>backend_name.
           get_sso_backend_name env (SOCIAL_AUTH_MODULE (config_settings config)) = Inr backend_name \<and>
           LOGIN_URL s' = login_url (BASE_PATH (config_settings config)) backend_name \<and>
           AUTHENTICATION_BACKENDS s'
             = SOCIAL_AUTH_MODULE (config_settings config) # AUTHENTICATION_BACKENDS (config_settings config) \<and>
           load_plugins env (PLUGINS (config_settings config))
               (INSTALLED_APPS (config_settings config) @ [''social_django''])
               (PLUGINS_CONFIG (config_settings config)) (VERSION (config_settings config))
               (MIDDLEWARE (config_settings config)) (CACHEOPS (config_settings config))
             = (None, INSTALLED_APPS s', PLUGINS_CONFIG s', MIDDLEWARE s', CACHEOPS s')"
proof -
  let ?s = "settings_at_authentication config"
  let ?p = "process_after_directories env config p"
  have "from_media_storage env (?s, ?p) = (None, s', p')"
    using assms(2) completed_run_reaches_media_storage [of env config p] by simp
  then obtain s1 p1 s2 p2 s3 p3 where
      m: "media_storage env (?s, ?p) = (None, s1, p1)"
    and w: "storage_config_warning (s1, p1) = (None, s2, p2)"
    and o: "sso env (s2, p2) = (None, s3, p3)"
    and l: "plugins env (s3, p3) = (None, s', p')"
    unfolding from_media_storage_def from_storage_config_warning_def from_sso_def
    by (fastforce dest!: and_then_NoneD)
  from m obtain b where s1: "s1 = ?s\<lparr>DEFAULT_FILE_STORAGE := b\<rparr>"
    by (blast dest: media_storage_passD)
  from w have s2: "s2 = s1"
    by (rule storage_config_warning_passD)
  have e: "SOCIAL_AUTH_ENABLED s2"
    using assms(1) by (simp add: s2 s1 settings_at_authentication_fields)
  from sso_passD [OF e o] obtain name where
      n: "get_sso_backend_name env (SOCIAL_AUTH_MODULE s2) = Inr name"
    and s3: "s3 = s2\<lparr>INSTALLED_APPS := INSTALLED_APPS s2 @ [''social_django''],
                  AUTHENTICATION_BACKENDS := SOCIAL_AUTH_MODULE s2 # AUTHENTICATION_BACKENDS s2,
                  LOGIN_URL := login_url (BASE_PATH s2) name\<rparr>"
    by blast
  from plugins_passD [OF l]
  have "load_plugins env (PLUGINS s3) (INSTALLED_APPS s3) (PLUGINS_CONFIG s3) (VERSION s3) (MIDDLEWARE s3)
           (CACHEOPS s3) = (None, INSTALLED_APPS s', PLUGINS_CONFIG s', MIDDLEWARE s', CACHEOPS s')"
    and "AUTHENTICATION_BACKENDS s' = AUTHENTICATION_BACKENDS s3" and "LOGIN_URL s' = LOGIN_URL s3"
    by simp_all
  with n show ?thesis
    by (simp add: s3 s2 s1 settings_at_authentication_fields)
qed

lemma sample_sso_run:
  "raised (configure_settings sample_externals (sample_config sample_sso_settings) sample_process) = None \<and>
   LOGIN_URL (settings_after
       (configure_settings sample_externals (sample_config sample_sso_settings) sample_process))
     = ''/nautobot/login/google-oauth2/''"
proof -
  have "configure_settings sample_externals (sample_config sample_sso_settings) sample_process =
           from_media_storage sample_externals
             (settings_at_authentication (sample_config sample_sso_settings),
              process_after_directories sample_externals (sample_config sample_sso_settings) sample_process)"
    by (rule sample_reaches_media_storage)
       (simp_all add: sample_sso_settings_def sample_settings_def ObjectPermissionBackend_def)
  then show ?thesis
    by (simp add: from_media_storage_def from_storage_config_warning_def from_sso_def and_then_def
          media_storage_def storage_config_warning_def sso_def plugins_def Let_def login_url_def
          settings_at_authentication_fields sample_config_def sample_sso_settings_def
          sample_settings_def sample_externals_def)
qed

text \<open>
  C5, as the code has it. When \<open>SOCIAL_AUTH_ENABLED\<close> is true and \<open>_configure_settings\<close> returns
  without an exception, the backend-name resolver has returned a name for
  \<open>SOCIAL_AUTH_MODULE\<close>, and in the settings object left behind \<open>LOGIN_URL\<close> is a slash followed
  by \<open>{base_path}login/{backend_name}/\<close>, \<open>AUTHENTICATION_BACKENDS\<close> is the old list with
  \<open>SOCIAL_AUTH_MODULE\<close> put in front, and the application list handed to the plugin loader is
  the old \<open>INSTALLED_APPS\<close> with \<open>social_django\<close> appended.
\<close>

theorem sso_enabled_settings:
  assumes "SOCIAL_AUTH_ENABLED (config_settings config)"
      and "configure_settings env config p = (None, s', p')"
  shows "\<exists>backend_name.
           get_sso_backend_name env (SOCIAL_AUTH_MODULE (config_settings config)) = Inr backend_name \<and>
           LOGIN_URL s' = ''/'' @ BASE_PATH (config_settings config) @ ''login/'' @ backend_name @ ''/'' \<and>
           hd (AUTHENTICATION_BACKENDS s') = SOCIAL_AUTH_MODULE (config_settings config) \<and>
           AUTHENTICATION_BACKENDS s'
             = SOCIAL_AUTH_MODULE (config_settings config) # AUTHENTICATION_BACKENDS (config_settings config) \<and>
           load_plugins env (PLUGINS (config_settings config))
               (INSTALLED_APPS (config_settings config) @ [''social_django''])
               (PLUGINS_CONFIG (config_settings config)) (VERSION (config_settings config))
               (MIDDLEWARE (config_settings config)) (CACHEOPS (config_settings config))
             = (None, INSTALLED_APPS s', PLUGINS_CONFIG s', MIDDLEWARE s', CACHEOPS s')"
  using sso_completed_run [OF assms] by (auto simp: login_url_def)

theorem sso_enabled_settings_witness:
  "LOGIN_URL (settings_after
       (configure_settings sample_externals (sample_config sample_sso_settings) sample_process))
     = ''/nautobot/login/google-oauth2/'' \<and>
   hd (AUTHENTICATION_BACKENDS (settings_after
       (configure_settings sample_externals (sample_config sample_sso_settings) sample_process)))
     = ''social_core.backends.google.GoogleOAuth2'' \<and>
   INSTALLED_APPS (settings_after
       (configure_settings sample_externals (sample_config sample_sso_settings) sample_process))
     = [''nautobot.core'', ''social_django'']"
proof -
  let ?c = "sample_config sample_sso_settings"
  have "raised (configure_settings sample_externals ?c sample_process) = None"
    using sample_sso_run by blast
  then obtain s' p' where run: "configure_settings sample_externals ?c sample_process = (None, s', p')"
    by (cases "configure_settings sample_externals ?c sample_process") auto
  have e: "SOCIAL_AUTH_ENABLED (config_settings ?c)"
    by (simp add: sample_config_def sample_sso_settings_def)
  from sso_enabled_settings [OF e run] obtain backend_name where
      n: "get_sso_backend_name sample_externals (SOCIAL_AUTH_MODULE (config_settings ?c)) = Inr backend_name"
    and u: "LOGIN_URL s' = ''/'' @ BASE_PATH (config_settings ?c) @ ''login/'' @ backend_name @ ''/''"
    and h: "hd (AUTHENTICATION_BACKENDS s') = SOCIAL_AUTH_MODULE (config_settings ?c)"
    and l: "load_plugins sample_externals (PLUGINS (config_settings ?c))
               (INSTALLED_APPS (config_settings ?c) @ [''social_django''])
               (PLUGINS_CONFIG (config_settings ?c)) (VERSION (config_settings ?c))
               (MIDDLEWARE (config_settings ?c)) (CACHEOPS (config_settings ?c))
             = (None, INSTALLED_APPS s', PLUGINS_CONFIG s', MIDDLEWARE s', CACHEOPS s')"
    by blast
  from n have "backend_name = ''google-oauth2''"
    by (simp add: sample_config_def sample_sso_settings_def sample_externals_def)
  with u have "LOGIN_URL s' = ''/nautobot/login/google-oauth2/''"
    by (simp add: sample_config_def sample_sso_settings_def)
  moreover from h have "hd (AUTHENTICATION_BACKENDS s') = ''social_core.backends.google.GoogleOAuth2''"
    by (simp add: sample_config_def sample_sso_settings_def)
  moreover from l have "INSTALLED_APPS s' = [''nautobot.core'', ''social_django'']"
    by (simp add: sample_config_def sample_sso_settings_def sample_settings_def sample_externals_def)
  ultimately show ?thesis
    by (simp add: run)
qed

text \<open>
  The pattern without the leading slash is not what the code computes: in the sample
  deployment with SSO enabled and \<open>BASE_PATH = nautobot/\<close> the run completes, the resolver
  returns \<open>google-oauth2\<close>, and \<open>LOGIN_URL\<close> differs from \<open>nautobot/login/google-oauth2/\<close>.
\<close>

theorem login_url_leading_slash_counterexample:
  "SOCIAL_AUTH_ENABLED sample_sso_settings \<and>
   raised (configure_settings sample_externals (sample_config sample_sso_settings) sample_process) = None \<and>
   get_sso_backend_name sample_externals (SOCIAL_AUTH_MODULE sample_sso_settings) = Inr ''google-oauth2'' \<and>
   LOGIN_URL (settings_after
       (configure_settings sample_externals (sample_config sample_sso_settings) sample_process))
     \<noteq> BASE_PATH sample_sso_settings @ ''login/'' @ ''google-oauth2'' @ ''/''"
  using sample_sso_run by (simp add: sample_sso_settings_def sample_externals_def)

subsection \<open>Release check URL\<close>

text \<open>
  C1, on the code. Line 164 constructs a \<open>URLValidator\<close> and never calls it, so the release
  URL check raises nothing for any settings object. With \<open>RELEASE_CHECK_URL = not-a-url\<close> the
  check returns the settings without an exception and the run of \<open>_configure_settings\<close> in the
  sample deployment completes, where the claim asks for \<open>ImproperlyConfigured\<close>.
\<close>

theorem malformed_release_check_url_accepted:
  "release_check_url s = (None, s) \<and>
   release_check_url (sample_settings\<lparr>RELEASE_CHECK_URL := Some ''not-a-url''\<rparr>)
     = (None, sample_settings\<lparr>RELEASE_CHECK_URL := Some ''not-a-url''\<rparr>) \<and>
   raised (configure_settings sample_externals
       (sample_config (sample_settings\<lparr>RELEASE_CHECK_URL := Some ''not-a-url''\<rparr>)) sample_process) = None"
proof -
  let ?s = "sample_settings\<lparr>RELEASE_CHECK_URL := Some ''not-a-url''\<rparr>"
  have "configure_settings sample_externals (sample_config ?s) sample_process =
           from_media_storage sample_externals
             (settings_at_authentication (sample_config ?s),
              process_after_directories sample_externals (sample_config ?s) sample_process)"
    by (rule sample_reaches_media_storage)
       (simp_all add: sample_settings_def ObjectPermissionBackend_def)
  then have "raised (configure_settings sample_externals (sample_config ?s) sample_process) = None"
    by (simp add: from_media_storage_def from_storage_config_warning_def from_sso_def and_then_def
          media_storage_def storage_config_warning_def sso_def plugins_def
          settings_at_authentication_fields sample_config_def
          sample_settings_def sample_externals_def)
  moreover have "release_check_url ?s = (None, ?s)"
    by (simp add: release_check_url_def URLValidator_def)
  moreover have "release_check_url s = (None, s)"
    by (rule release_check_url_result)
  ultimately show ?thesis
    by simp
qed

end
